theory Spec2Isabelle
  imports Main
begin

section \<open>Values and configuration sources\<close>

text \<open>
  Go's \<^verbatim>\<open>interface{}\<close> values, as far as the provider's schema produces them: the
  untyped nil, booleans, strings, integers, lists and string-keyed maps. A type switch
  or a type assertion of the source is a case distinction on the constructor.
\<close>

datatype val =
    VNil
  | VBool bool
  | VString string
  | VInt int
  | VList "val list"
  | VMap "(string \<times> val) list"

text \<open>
  \<^verbatim>\<open>dataGetter\<close> is the interface with the three read accessors of
  \<^verbatim>\<open>schema.ResourceData\<close> and \<^verbatim>\<open>schema.ResourceDiff\<close>. Both implementations
  belong to the plugin SDK, so a getter is any triple of functions; \<^verbatim>\<open>GetOk\<close> and
  \<^verbatim>\<open>GetOkExists\<close> return the value together with the presence flag.
\<close>

record dataGetter =
  Get :: "string \<Rightarrow> val"
  GetOk :: "string \<Rightarrow> val \<times> bool"
  GetOkExists :: "string \<Rightarrow> val \<times> bool"

text \<open>
  \<^verbatim>\<open>overridableData\<close> pairs the provider's data with the per-operation override.
\<close>

record overridableData =
  providerData :: dataGetter
  override :: dataGetter

definition overridableData_Get :: "overridableData \<Rightarrow> string \<Rightarrow> val" where
  "overridableData_Get o' key =
     (case GetOk (override o') key of
        (data, True) \<Rightarrow> data
      | (_, False) \<Rightarrow> Get (providerData o') key)"

definition overridableData_GetOk :: "overridableData \<Rightarrow> string \<Rightarrow> val \<times> bool" where
  "overridableData_GetOk o' key =
     (case GetOk (override o') key of
        (data, True) \<Rightarrow> (data, True)
      | (_, False) \<Rightarrow> GetOk (providerData o') key)"



section \<open>The kubernetes block of the provider schema\<close>

datatype ValueType = TypeBool | TypeString | TypeList

text \<open>
  A \<^verbatim>\<open>SchemaDefaultFunc\<close> is a Go closure \<^verbatim>\<open>func() (interface{}, error)\<close>: calling
  it yields a value and possibly an error. \<^verbatim>\<open>schema.EnvDefaultFunc\<close>, which builds
  every default producer of the kubernetes block from the name of an environment
  variable and a fallback value, is a function of the plugin SDK; it is a parameter
  \<open>edf\<close> of the schema table and of everything that reads it.
\<close>

type_synonym SchemaDefaultFunc = "unit \<Rightarrow> val \<times> string option"

type_synonym EnvDefaultFunc = "string \<Rightarrow> val \<Rightarrow> SchemaDefaultFunc"

text \<open>
  The fields of \<^verbatim>\<open>schema.Schema\<close> that the table sets, except the descriptions and
  the element schemas of the two list fields, which nothing here reads. A nil
  \<^verbatim>\<open>DefaultFunc\<close> is \<open>None\<close>.
\<close>

record Schema =
  Type :: ValueType
  Optional :: bool
  Required :: bool
  DefaultFunc :: "SchemaDefaultFunc option"
  MaxItems :: nat
  ConflictsWith :: "string list"

definition optionalField :: "ValueType \<Rightarrow> SchemaDefaultFunc option \<Rightarrow> Schema" where
  "optionalField t f =
     \<lparr> Type = t, Optional = True, Required = False, DefaultFunc = f,
       MaxItems = 0, ConflictsWith = [] \<rparr>"

definition kubernetesResource :: "EnvDefaultFunc \<Rightarrow> string \<rightharpoonup> Schema" where
  "kubernetesResource edf = map_of
     [ (''host'', optionalField TypeString (Some (edf ''KUBE_HOST'' (VString '''')))),
       (''username'', optionalField TypeString (Some (edf ''KUBE_USER'' (VString '''')))),
       (''password'', optionalField TypeString (Some (edf ''KUBE_PASSWORD'' (VString '''')))),
       (''insecure'', optionalField TypeBool (Some (edf ''KUBE_INSECURE'' (VBool False)))),
       (''client_certificate'',
          optionalField TypeString (Some (edf ''KUBE_CLIENT_CERT_DATA'' (VString '''')))),
       (''client_key'',
          optionalField TypeString (Some (edf ''KUBE_CLIENT_KEY_DATA'' (VString '''')))),
       (''cluster_ca_certificate'',
          optionalField TypeString (Some (edf ''KUBE_CLUSTER_CA_CERT_DATA'' (VString '''')))),
       (''config_paths'', optionalField TypeList None),
       (''config_path'',
          (optionalField TypeString (Some (edf ''KUBE_CONFIG_PATH'' VNil)))
            \<lparr> ConflictsWith := [''kubernetes.0.config_paths''] \<rparr>),
       (''config_context'', optionalField TypeString (Some (edf ''KUBE_CTX'' (VString '''')))),
       (''config_context_auth_info'',
          optionalField TypeString (Some (edf ''KUBE_CTX_AUTH_INFO'' (VString '''')))),
       (''config_context_cluster'',
          optionalField TypeString (Some (edf ''KUBE_CTX_CLUSTER'' (VString '''')))),
       (''token'', optionalField TypeString (Some (edf ''KUBE_TOKEN'' (VString '''')))),
       (''proxy_url'', optionalField TypeString (Some (edf ''KUBE_PROXY_URL'' (VString '''')))),
       (''exec'', (optionalField TypeList None) \<lparr> MaxItems := 1 \<rparr>) ]"

section \<open>Resolving a kubernetes field\<close>

definition k8sPrefix :: string where
  "k8sPrefix = ''kubernetes.0.''"

text \<open>
  The first half of \<^verbatim>\<open>k8sGetOk\<close>: the plain presence check, replaced by the
  presence-aware accessor when the value found is a boolean.
\<close>

definition k8sLookup :: "dataGetter \<Rightarrow> string \<Rightarrow> val \<times> bool" where
  "k8sLookup d key =
     (case GetOk d (k8sPrefix @ key) of
        (VBool _, _) \<Rightarrow> GetOkExists d (k8sPrefix @ key)
      | (value, ok) \<Rightarrow> (value, ok))"

text \<open>
  Presence of a produced default: the type switch on the value that \<^verbatim>\<open>DefaultFunc\<close>
  returned. For a string it is non-emptiness, for a boolean the boolean itself; with
  any other value \<^verbatim>\<open>ok\<close> keeps the \<open>False\<close> it had.
\<close>

fun defaultPresent :: "val \<Rightarrow> bool" where
  "defaultPresent (VString v) = (length v \<noteq> 0)"
| "defaultPresent (VBool v) = v"
| "defaultPresent _ = False"

text \<open>
  The schema table is a map to pointers: looking up a key it does not hold gives nil,
  and reading \<^verbatim>\<open>s.DefaultFunc\<close> through nil panics. The conjunction short-circuits,
  so the field is only read when \<^verbatim>\<open>ok\<close> is false.
\<close>

datatype panic = NilPointerDereference

definition k8sGetOk :: "EnvDefaultFunc \<Rightarrow> dataGetter \<Rightarrow> string \<Rightarrow> panic + val \<times> bool" where
  "k8sGetOk edf d key =
     (case k8sLookup d key of
        (value, True) \<Rightarrow> Inr (value, True)
      | (value, False) \<Rightarrow>
          (case kubernetesResource edf key of
             None \<Rightarrow> Inl NilPointerDereference
           | Some s \<Rightarrow>
               (case DefaultFunc s of
                  None \<Rightarrow> Inr (value, False)
                | Some f \<Rightarrow>
                    (case f () of (value', _) \<Rightarrow> Inr (value', defaultPresent value')))))"

section \<open>Building a Helm configuration\<close>

text \<open>
  \<^verbatim>\<open>Meta\<close> is the provider state. \<^verbatim>\<open>data\<close> is the provider's resource data, seen
  through its read accessors; \<^verbatim>\<open>Settings\<close> holds the fields of \<^verbatim>\<open>cli.EnvSettings\<close>
  that \<^verbatim>\<open>providerConfigure\<close> assigns; \<^verbatim>\<open>Mutex\<close> is the embedded \<^verbatim>\<open>sync.Mutex\<close>,
  \<open>True\<close> while it is held.
\<close>

record EnvSettings =
  Debug :: bool
  PluginsDirectory :: string
  RegistryConfig :: string
  RepositoryConfig :: string
  RepositoryCache :: string

record Meta =
  data :: dataGetter
  Settings :: EnvSettings
  HelmDriver :: string
  Mutex :: bool
  experiments :: "string \<rightharpoonup> bool"

text \<open>
  \<^verbatim>\<open>Lock\<close> on a mutex that is held does not return until another thread releases it;
  in this sequential model that call never returns, which is \<open>None\<close>.
\<close>

definition Meta_Lock :: "Meta \<Rightarrow> Meta option" where
  "Meta_Lock m = (if Mutex m then None else Some (m\<lparr>Mutex := True\<rparr>))"

definition Meta_Unlock :: "Meta \<Rightarrow> Meta" where
  "Meta_Unlock m = m\<lparr>Mutex := False\<rparr>"

text \<open>
  \<^verbatim>\<open>action.Configuration\<close> belongs to the Helm library. The model keeps the client
  getter that \<^verbatim>\<open>Init\<close> receives and the registry client that \<^verbatim>\<open>OCIRegistryLogin\<close>
  assigns; \<open>'kc\<close> and \<open>'rc\<close> are the types of the two clients.
\<close>

record ('kc, 'rc) Configuration =
  RESTClientGetter :: "'kc option"
  RegistryClient :: "'rc option"

definition new_Configuration :: "('kc, 'rc) Configuration" where
  "new_Configuration = \<lparr> RESTClientGetter = None, RegistryClient = None \<rparr>"

text \<open>
  The two calls \<^verbatim>\<open>GetHelmConfiguration\<close> makes are parameters: \<^verbatim>\<open>newKubeConfig\<close>
  returns an error or the client getter together with the namespace it may have
  written through the pointer it was handed; \<^verbatim>\<open>Init\<close> returns an error or the
  initialised configuration. Errors are their messages.
\<close>

record ('kc, 'rc) kube =
  newKubeConfig :: "overridableData \<Rightarrow> string \<Rightarrow> string + 'kc \<times> string"
  Init :: "('kc, 'rc) Configuration \<Rightarrow> 'kc \<Rightarrow> string \<Rightarrow> string \<Rightarrow> string + ('kc, 'rc) Configuration"

text \<open>
  The result is the returned pair (an error, or the configuration) and the provider
  state after the call. The deferred \<^verbatim>\<open>Unlock\<close> runs at each return. The \<^verbatim>\<open>debug\<close>
  lines only write to the log.
\<close>

definition GetHelmConfiguration ::
  "('kc, 'rc) kube \<Rightarrow> Meta \<Rightarrow> dataGetter \<Rightarrow> string
     \<Rightarrow> ((string + ('kc, 'rc) Configuration) \<times> Meta) option" where
  "GetHelmConfiguration K m d namespace =
     (case Meta_Lock m of
        None \<Rightarrow> None
      | Some m1 \<Rightarrow>
          (case newKubeConfig K \<lparr> providerData = data m1, override = d \<rparr> namespace of
             Inl err \<Rightarrow> Some (Inl err, Meta_Unlock m1)
           | Inr (kc, namespace') \<Rightarrow>
               (case Init K new_Configuration kc namespace' (HelmDriver m1) of
                  Inl err \<Rightarrow> Some (Inl err, Meta_Unlock m1)
                | Inr actionConfig \<Rightarrow> Some (Inr actionConfig, Meta_Unlock m1))))"

section \<open>Logging into an OCI registry\<close>

text \<open>
  What \<^verbatim>\<open>OCIRegistryLogin\<close> calls outside this repository: \<^verbatim>\<open>registry.NewClient\<close>
  (the outcome of the call: an error or a client), \<^verbatim>\<open>registry.IsOCI\<close>,
  \<^verbatim>\<open>url.Parse\<close>, and the client's \<^verbatim>\<open>Login\<close> with basic authentication (host, user
  name, password), which returns an error or nothing.
\<close>

record URL =
  Host :: string

record 'rc registry =
  NewClient :: "string + 'rc"
  IsOCI :: "string \<Rightarrow> bool"
  url_Parse :: "string \<Rightarrow> string + URL"
  Login :: "'rc \<Rightarrow> string \<Rightarrow> string \<Rightarrow> string \<Rightarrow> string option"

text \<open>
  The package-level variables \<^verbatim>\<open>loggedInOCIRegistries\<close> and \<^verbatim>\<open>OCILoginMutex\<close>,
  and a trace of the calls made to \<^verbatim>\<open>Login\<close> (host, user name, password, outcome),
  oldest first. The trace is not a variable of the program; it counts handshakes.
\<close>

record ociState =
  loggedInOCIRegistries :: "string \<rightharpoonup> string"
  OCILoginMutex :: bool
  handshakes :: "(string \<times> string \<times> string \<times> string option) list"

definition OCILoginMutex_Lock :: "ociState \<Rightarrow> ociState option" where
  "OCILoginMutex_Lock s = (if OCILoginMutex s then None else Some (s\<lparr>OCILoginMutex := True\<rparr>))"

definition OCILoginMutex_Unlock :: "ociState \<Rightarrow> ociState" where
  "OCILoginMutex_Unlock s = s\<lparr>OCILoginMutex := False\<rparr>"

text \<open>
  The three wrapped errors, and the panic of a failed type assertion
  \<^verbatim>\<open>d.Get(key).(string)\<close>, which names the key.
\<close>

datatype loginError =
    CouldNotCreateClient string
  | CouldNotParseURL string
  | CouldNotLogin string string
  | NotAString string

fun asString :: "val \<Rightarrow> string option" where
  "asString (VString s) = Some s"
| "asString _ = None"

text \<open>The choice of \<^verbatim>\<open>ociURL\<close>: the repository if it is an OCI reference, else the chart.\<close>

definition ociURLOf :: "'rc registry \<Rightarrow> string \<Rightarrow> string \<Rightarrow> string" where
  "ociURLOf R repository chartName =
     (if IsOCI R repository then repository
      else if IsOCI R chartName then chartName
      else '''')"

text \<open>
  The section under \<^verbatim>\<open>OCILoginMutex\<close>, entered with the mutex held: the lookup of
  the host, the handshake, and the record of a successful login. The deferred
  \<^verbatim>\<open>Unlock\<close> runs at each return.
\<close>

definition loginLocked ::
  "'rc registry \<Rightarrow> 'rc \<Rightarrow> string \<Rightarrow> string \<Rightarrow> string \<Rightarrow> ociState
     \<Rightarrow> (loginError + unit) \<times> ociState" where
  "loginLocked R registryClient host username password s =
     (case loggedInOCIRegistries s host of
        Some _ \<Rightarrow> (Inr (), OCILoginMutex_Unlock s)
      | None \<Rightarrow>
          (case Login R registryClient host username password of
             Some err \<Rightarrow>
               (Inl (CouldNotLogin host err),
                OCILoginMutex_Unlock
                  (s\<lparr>handshakes := handshakes s @ [(host, username, password, Some err)]\<rparr>))
           | None \<Rightarrow>
               (Inr (),
                OCILoginMutex_Unlock
                  (s\<lparr>handshakes := handshakes s @ [(host, username, password, None)],
                     loggedInOCIRegistries := (loggedInOCIRegistries s)(host \<mapsto> '''')\<rparr>))))"

text \<open>
  The result is \<open>None\<close> when the call waits for the mutex, and otherwise the returned
  error (or \<open>Inr ()\<close> for nil), the configuration and the package state after the call.
\<close>

definition OCIRegistryLogin ::
  "'rc registry \<Rightarrow> ('kc, 'rc) Configuration \<Rightarrow> dataGetter \<Rightarrow> ociState
     \<Rightarrow> ((loginError + unit) \<times> ('kc, 'rc) Configuration \<times> ociState) option" where
  "OCIRegistryLogin R actionConfig d s =
     (case NewClient R of
        Inl err \<Rightarrow> Some (Inl (CouldNotCreateClient err), actionConfig, s)
      | Inr registryClient \<Rightarrow>
          (let actionConfig' = actionConfig\<lparr>RegistryClient := Some registryClient\<rparr> in
           case asString (Get d ''repository'') of
             None \<Rightarrow> Some (Inl (NotAString ''repository''), actionConfig', s)
           | Some repository \<Rightarrow>
           (case asString (Get d ''chart'') of
             None \<Rightarrow> Some (Inl (NotAString ''chart''), actionConfig', s)
           | Some chartName \<Rightarrow>
           (let ociURL = ociURLOf R repository chartName in
            if ociURL = '''' then Some (Inr (), actionConfig', s)
            else
           (case asString (Get d ''repository_username'') of
             None \<Rightarrow> Some (Inl (NotAString ''repository_username''), actionConfig', s)
           | Some username \<Rightarrow>
           (case asString (Get d ''repository_password'') of
             None \<Rightarrow> Some (Inl (NotAString ''repository_password''), actionConfig', s)
           | Some password \<Rightarrow>
               if username \<noteq> '''' \<and> password \<noteq> '''' then
                 (case url_Parse R ociURL of
                    Inl err \<Rightarrow> Some (Inl (CouldNotParseURL err), actionConfig', s)
                  | Inr u \<Rightarrow>
                      (case OCILoginMutex_Lock s of
                         None \<Rightarrow> None
                       | Some s1 \<Rightarrow>
                           (case loginLocked R registryClient (Host u) username password s1 of
                              (result, s2) \<Rightarrow> Some (result, actionConfig', s2))))
               else Some (Inr (), actionConfig', s)))))))"

section \<open>Example data\<close>

text \<open>
  Concrete configuration sources, collaborators and states, on which the theorems of the
  next sections are instantiated. The provider sets \<^verbatim>\<open>kubernetes.0.insecure\<close> to true
  and the storage driver to \<^verbatim>\<open>secret\<close>; the override sets the host and sets
  \<^verbatim>\<open>kubernetes.0.insecure\<close> to false, which the plain presence check reports as
  absent and the presence-aware one as present.
\<close>

definition providerExample :: dataGetter where
  "providerExample =
     \<lparr> Get = (\<lambda>k. if k = ''kubernetes.0.insecure'' then VBool True
                 else if k = ''helm_driver'' then VString ''secret'' else VNil),
       GetOk = (\<lambda>k. if k = ''kubernetes.0.insecure'' then (VBool True, True)
                 else if k = ''helm_driver'' then (VString ''secret'', True) else (VNil, False)),
       GetOkExists = (\<lambda>k. if k = ''kubernetes.0.insecure'' then (VBool True, True)
                 else if k = ''helm_driver'' then (VString ''secret'', True) else (VNil, False)) \<rparr>"

definition overrideExample :: dataGetter where
  "overrideExample =
     \<lparr> Get = (\<lambda>k. if k = ''kubernetes.0.insecure'' then VBool False
                 else if k = ''kubernetes.0.host'' then VString ''https://k8s.example'' else VNil),
       GetOk = (\<lambda>k. if k = ''kubernetes.0.insecure'' then (VBool False, False)
                 else if k = ''kubernetes.0.host'' then (VString ''https://k8s.example'', True)
                 else (VNil, False)),
       GetOkExists = (\<lambda>k. if k = ''kubernetes.0.insecure'' then (VBool False, True)
                 else if k = ''kubernetes.0.host'' then (VString ''https://k8s.example'', True)
                 else (VNil, False)) \<rparr>"

definition mergedExample :: overridableData where
  "mergedExample = \<lparr> providerData = providerExample, override = overrideExample \<rparr>"

text \<open>
  A producer that reads an environment in which only \<^verbatim>\<open>KUBE_HOST\<close> is set and
  falls back to the given default otherwise, without error.
\<close>

definition envDefaultExample :: EnvDefaultFunc where
  "envDefaultExample k dv =
     (\<lambda>_. if k = ''KUBE_HOST'' then (VString ''https://10.0.0.1:6443'', None) else (dv, None))"

text \<open>
  A source in which no kubernetes field is set: the boolean field reads as false and
  absent under either accessor, every other key as nil and absent.
\<close>

definition unsetExample :: dataGetter where
  "unsetExample =
     \<lparr> Get = (\<lambda>k. if k = ''kubernetes.0.insecure'' then VBool False else VNil),
       GetOk = (\<lambda>k. if k = ''kubernetes.0.insecure'' then (VBool False, False) else (VNil, False)),
       GetOkExists =
         (\<lambda>k. if k = ''kubernetes.0.insecure'' then (VBool False, False) else (VNil, False)) \<rparr>"

text \<open>
  A kube configuration builder that always succeeds and an initialiser that accepts the
  \<^verbatim>\<open>secret\<close> driver only.
\<close>

definition kubeExample :: "(nat, nat) kube" where
  "kubeExample =
     \<lparr> newKubeConfig = (\<lambda>configData namespace. Inr (7, namespace)),
       Init = (\<lambda>actionConfig kc namespace helmDriver.
                 if helmDriver = ''secret'' then Inr (actionConfig\<lparr>RESTClientGetter := Some kc\<rparr>)
                 else Inl ''unknown driver'') \<rparr>"

definition metaExample :: Meta where
  "metaExample =
     \<lparr> data = providerExample,
       Settings = \<lparr> Debug = False, PluginsDirectory = ''plugins'', RegistryConfig = ''registry.json'',
                    RepositoryConfig = ''repositories.yaml'', RepositoryCache = ''repository'' \<rparr>,
       HelmDriver = ''secret'',
       Mutex = False,
       experiments = [''manifest'' \<mapsto> False] \<rparr>"

text \<open>
  A registry whose client is created, which knows one OCI reference and accepts one
  password; the same registry when the client cannot be created; the data of a release
  with its four string fields; the package state before any login and after a login to
  the host of the reference.
\<close>

definition registryExample :: "nat registry" where
  "registryExample =
     \<lparr> NewClient = Inr 1,
       IsOCI = (\<lambda>u. take 6 u = ''oci://''),
       url_Parse = (\<lambda>u. if u = ''oci://registry.example.com/charts/foo''
                         then Inr \<lparr> Host = ''registry.example.com'' \<rparr>
                         else Inl ''invalid URL''),
       Login = (\<lambda>c host username password.
                  if password = ''s3cret'' then None else Some ''unauthorized'') \<rparr>"

definition registryDown :: "nat registry" where
  "registryDown = registryExample \<lparr> NewClient := Inl ''credentials store unreadable'' \<rparr>"

definition releaseData :: "string \<Rightarrow> string \<Rightarrow> string \<Rightarrow> string \<Rightarrow> dataGetter" where
  "releaseData repository chart username password =
     (let get = (\<lambda>k. if k = ''repository'' then VString repository
                      else if k = ''chart'' then VString chart
                      else if k = ''repository_username'' then VString username
                      else if k = ''repository_password'' then VString password
                      else VNil)
      in \<lparr> Get = get,
           GetOk = (\<lambda>k. (get k, get k \<noteq> VNil \<and> get k \<noteq> VString '''')),
           GetOkExists = (\<lambda>k. (get k, get k \<noteq> VNil)) \<rparr>)"

definition freshState :: ociState where
  "freshState = \<lparr> loggedInOCIRegistries = Map.empty, OCILoginMutex = False, handshakes = [] \<rparr>"

definition loggedInState :: ociState where
  "loggedInState =
     \<lparr> loggedInOCIRegistries = [''registry.example.com'' \<mapsto> ''''],
       OCILoginMutex = False,
       handshakes = [(''registry.example.com'', ''alice'', ''s3cret'', None)] \<rparr>"


section \<open>Override precedence\<close>

text \<open>
  C1. For every key: when the override's \<^verbatim>\<open>GetOk\<close> reports the key present,
  \<^verbatim>\<open>Get\<close> and \<^verbatim>\<open>GetOk\<close> of the merged data return the override's value (and
  present); otherwise they return what the provider's \<^verbatim>\<open>Get\<close> and \<^verbatim>\<open>GetOk\<close>
  return. The two sources are never mixed.
\<close>

theorem override_precedence:
  "(snd (GetOk (override o') key) \<longrightarrow>
      overridableData_Get o' key = fst (GetOk (override o') key) \<and>
      overridableData_GetOk o' key = (fst (GetOk (override o') key), True)) \<and>
   (\<not> snd (GetOk (override o') key) \<longrightarrow>
      overridableData_Get o' key = Get (providerData o') key \<and>
      overridableData_GetOk o' key = GetOk (providerData o') key)"
  by (cases "GetOk (override o') key")
     (simp add: overridableData_Get_def overridableData_GetOk_def split: bool.split)

theorem override_precedence_witness:
  "snd (GetOk (override mergedExample) ''kubernetes.0.host'') \<and>
   overridableData_Get mergedExample ''kubernetes.0.host'' = VString ''https://k8s.example'' \<and>
   overridableData_GetOk mergedExample ''kubernetes.0.host'' = (VString ''https://k8s.example'', True) \<and>
   \<not> snd (GetOk (override mergedExample) ''helm_driver'') \<and>
   overridableData_Get mergedExample ''helm_driver'' = VString ''secret'' \<and>
   overridableData_GetOk mergedExample ''helm_driver'' = (VString ''secret'', True)"
  using override_precedence [of mergedExample "''kubernetes.0.host''"]
        override_precedence [of mergedExample "''helm_driver''"]
  by (simp add: mergedExample_def providerExample_def overrideExample_def)

section \<open>Boolean fields\<close>




section \<open>Default producers\<close>

text \<open>
  C6. For every key of the kubernetes schema that registers a \<^verbatim>\<open>DefaultFunc\<close>, when
  the lookup reports the field absent, \<^verbatim>\<open>k8sGetOk\<close> calls the producer and returns
  the value it produced, with presence computed from that value: a non-empty string
  and the boolean true are present, the empty string and false are absent, and so is
  a value that is neither a string nor a boolean.
\<close>

theorem list_default_fallback:
  assumes "kubernetesResource edf key = Some s"
    and "DefaultFunc s = Some f"
    and "\<not> snd (k8sLookup d key)"
  shows "k8sGetOk edf d key =
           Inr (fst (f ()),
                (case fst (f ()) of
                   VString v \<Rightarrow> v \<noteq> ''''
                 | VBool b \<Rightarrow> b
                 | _ \<Rightarrow> False))"
proof -
  obtain v0 where l: "k8sLookup d key = (v0, False)"
    using assms(3) by (cases "k8sLookup d key") simp
  obtain v err where f: "f () = (v, err)"
    by (cases "f ()")
  have "defaultPresent v = (case v of VString w \<Rightarrow> w \<noteq> '''' | VBool b \<Rightarrow> b | _ \<Rightarrow> False)"
    by (cases v) simp_all
  with l f assms(1,2) show ?thesis
    by (simp add: k8sGetOk_def)
qed

theorem list_default_fallback_witness:
  "\<not> snd (k8sLookup unsetExample ''host'') \<and>
   k8sGetOk envDefaultExample unsetExample ''host'' =
     Inr (VString ''https://10.0.0.1:6443'', True) \<and>
   \<not> snd (k8sLookup unsetExample ''token'') \<and>
   k8sGetOk envDefaultExample unsetExample ''token'' = Inr (VString '''', False) \<and>
   \<not> snd (k8sLookup unsetExample ''insecure'') \<and>
   k8sGetOk envDefaultExample unsetExample ''insecure'' = Inr (VBool False, False) \<and>
   \<not> snd (k8sLookup unsetExample ''config_path'') \<and>
   k8sGetOk envDefaultExample unsetExample ''config_path'' = Inr (VNil, False)"
  using
    list_default_fallback [of envDefaultExample "''host''"
      "optionalField TypeString (Some (envDefaultExample ''KUBE_HOST'' (VString '''')))"
      "envDefaultExample ''KUBE_HOST'' (VString '''')" unsetExample]
    list_default_fallback [of envDefaultExample "''token''"
      "optionalField TypeString (Some (envDefaultExample ''KUBE_TOKEN'' (VString '''')))"
      "envDefaultExample ''KUBE_TOKEN'' (VString '''')" unsetExample]
    list_default_fallback [of envDefaultExample "''insecure''"
      "optionalField TypeBool (Some (envDefaultExample ''KUBE_INSECURE'' (VBool False)))"
      "envDefaultExample ''KUBE_INSECURE'' (VBool False)" unsetExample]
    list_default_fallback [of envDefaultExample "''config_path''"
      "(optionalField TypeString (Some (envDefaultExample ''KUBE_CONFIG_PATH'' VNil)))
         \<lparr> ConflictsWith := [''kubernetes.0.config_paths''] \<rparr>"
      "envDefaultExample ''KUBE_CONFIG_PATH'' VNil" unsetExample]
  by (simp add: kubernetesResource_def optionalField_def k8sLookup_def k8sPrefix_def
        unsetExample_def envDefaultExample_def)

section \<open>The frame of GetHelmConfiguration\<close>

text \<open>
  C8. A call of \<^verbatim>\<open>GetHelmConfiguration\<close> that finds the provider's mutex free
  returns, with an error or with a configuration, and on either return the mutex is
  released and the provider state (data, settings, driver name, experiments) is what
  it was before the call.
\<close>

theorem GetHelmConfiguration_frame:
  assumes "\<not> Mutex m"
  shows "\<exists>result m'. GetHelmConfiguration K m d namespace = Some (result, m') \<and>
           \<not> Mutex m' \<and> data m' = data m \<and> Settings m' = Settings m \<and>
           HelmDriver m' = HelmDriver m \<and> experiments m' = experiments m \<and> m' = m"
  using assms
  by (auto simp: GetHelmConfiguration_def Meta_Lock_def Meta_Unlock_def
        split: sum.splits prod.splits)

theorem GetHelmConfiguration_frame_witness:
  "\<not> Mutex metaExample \<and>
   GetHelmConfiguration kubeExample metaExample overrideExample ''default'' =
     Some (Inr \<lparr> RESTClientGetter = Some 7, RegistryClient = None \<rparr>, metaExample) \<and>
   \<not> Mutex (metaExample\<lparr>HelmDriver := ''etcd''\<rparr>) \<and>
   GetHelmConfiguration kubeExample (metaExample\<lparr>HelmDriver := ''etcd''\<rparr>) overrideExample ''default'' =
     Some (Inl ''unknown driver'', metaExample\<lparr>HelmDriver := ''etcd''\<rparr>)"
  using GetHelmConfiguration_frame [of metaExample kubeExample overrideExample "''default''"]
    GetHelmConfiguration_frame [of "metaExample\<lparr>HelmDriver := ''etcd''\<rparr>" kubeExample
      overrideExample "''default''"]
  by (simp add: GetHelmConfiguration_def Meta_Lock_def Meta_Unlock_def metaExample_def
        kubeExample_def new_Configuration_def)

section \<open>Registry login\<close>

text \<open>
  A call whose trace grows by one handshake created its client, found the mutex free
  and the host unrecorded, and its result and final state are fixed by the outcome of
  that handshake.
\<close>

lemma handshake_trace:
  assumes "OCIRegistryLogin R actionConfig d s = Some (res, actionConfig', s')"
    and "handshakes s' = handshakes s @ [(H, username, password, outcome)]"
  shows "\<exists>registryClient. NewClient R = Inr registryClient \<and>
           loggedInOCIRegistries s H = None \<and> \<not> OCILoginMutex s \<and>
           Login R registryClient H username password = outcome \<and>
           s' = s\<lparr>handshakes := handshakes s @ [(H, username, password, outcome)],
                  loggedInOCIRegistries :=
                    (case outcome of None \<Rightarrow> (loggedInOCIRegistries s)(H \<mapsto> '''')
                     | Some _ \<Rightarrow> loggedInOCIRegistries s)\<rparr> \<and>
           res = (case outcome of None \<Rightarrow> Inr () | Some err \<Rightarrow> Inl (CouldNotLogin H err))"
  using assms
  by (auto simp: OCIRegistryLogin_def Let_def loginLocked_def OCILoginMutex_Lock_def
        OCILoginMutex_Unlock_def split: sum.splits option.splits if_splits)

text \<open>
  C3, as the code has it. For a release whose four fields are strings and whose OCI
  reference parses to a host that is already in \<^verbatim>\<open>loggedInOCIRegistries\<close>, a call
  that finds the login mutex free makes no handshake and leaves the package state
  unchanged; it returns nil when the registry client was created, and the wrapped
  client error otherwise.
\<close>

theorem login_idempotent_per_host:
  assumes "Get d ''repository'' = VString repository"
    and "Get d ''chart'' = VString chartName"
    and "Get d ''repository_username'' = VString username"
    and "Get d ''repository_password'' = VString password"
    and "ociURLOf R repository chartName \<noteq> ''''"
    and "url_Parse R (ociURLOf R repository chartName) = Inr u"
    and "loggedInOCIRegistries s (Host u) \<noteq> None"
    and "\<not> OCILoginMutex s"
  shows "OCIRegistryLogin R actionConfig d s =
           (case NewClient R of
              Inl err \<Rightarrow> Some (Inl (CouldNotCreateClient err), actionConfig, s)
            | Inr registryClient \<Rightarrow>
                Some (Inr (), actionConfig\<lparr>RegistryClient := Some registryClient\<rparr>, s))"
  using assms
  by (auto simp: OCIRegistryLogin_def Let_def loginLocked_def OCILoginMutex_Lock_def
        OCILoginMutex_Unlock_def split: sum.splits)

theorem login_idempotent_per_host_witness:
  "OCIRegistryLogin registryExample (new_Configuration :: (nat, nat) Configuration)
     (releaseData ''oci://registry.example.com/charts/foo'' ''foo'' ''alice'' ''s3cret'')
     loggedInState =
     Some (Inr (), \<lparr> RESTClientGetter = None, RegistryClient = Some 1 \<rparr>, loggedInState)"
  using login_idempotent_per_host [of
      "releaseData ''oci://registry.example.com/charts/foo'' ''foo'' ''alice'' ''s3cret''"
      "''oci://registry.example.com/charts/foo''" "''foo''" "''alice''" "''s3cret''"
      registryExample "\<lparr> Host = ''registry.example.com'' \<rparr>" loggedInState
      "new_Configuration :: (nat, nat) Configuration"]
  by (simp add: registryExample_def releaseData_def loggedInState_def ociURLOf_def
        new_Configuration_def)

text \<open>
  Success is not unconditional: the host of the reference is in the registry, and the
  call returns an error because the registry client is not created.
\<close>

theorem login_idempotent_counterexample:
  "url_Parse registryDown
     (ociURLOf registryDown ''oci://registry.example.com/charts/foo'' ''foo'') =
     Inr \<lparr> Host = ''registry.example.com'' \<rparr> \<and>
   loggedInOCIRegistries loggedInState ''registry.example.com'' = Some '''' \<and>
   OCIRegistryLogin registryDown (new_Configuration :: (nat, nat) Configuration)
     (releaseData ''oci://registry.example.com/charts/foo'' ''foo'' ''alice'' ''s3cret'')
     loggedInState =
     Some (Inl (CouldNotCreateClient ''credentials store unreadable''), new_Configuration,
           loggedInState)"
  by (simp add: OCIRegistryLogin_def registryDown_def registryExample_def loggedInState_def
        ociURLOf_def)

text \<open>
  C4. A call that reaches the handshake for host H (the client is created, the OCI
  reference parses to H, both credentials are non-empty, the login mutex is free and
  H is not yet recorded) and whose handshake fails returns the error that wraps the
  failure; the registry is what it was, without H, and the only change of the package
  state is the handshake in the trace. A later call for H with both credentials then
  makes a new handshake; when that one succeeds the call returns nil and records H.
\<close>

theorem login_failure_not_recorded:
  assumes "NewClient R = Inr registryClient"
    and "Get d ''repository'' = VString repository"
    and "Get d ''chart'' = VString chartName"
    and "Get d ''repository_username'' = VString username"
    and "Get d ''repository_password'' = VString password"
    and "ociURLOf R repository chartName \<noteq> ''''"
    and "url_Parse R (ociURLOf R repository chartName) = Inr u"
    and "Host u = H"
    and "username \<noteq> ''''"
    and "password \<noteq> ''''"
    and "\<not> OCILoginMutex s"
    and "loggedInOCIRegistries s H = None"
    and "Login R registryClient H username password = Some err"
    and "s' = s\<lparr>handshakes := handshakes s @ [(H, username, password, Some err)]\<rparr>"
    and "NewClient R2 = Inr registryClient2"
    and "Get d2 ''repository'' = VString repository2"
    and "Get d2 ''chart'' = VString chartName2"
    and "Get d2 ''repository_username'' = VString username2"
    and "Get d2 ''repository_password'' = VString password2"
    and "ociURLOf R2 repository2 chartName2 \<noteq> ''''"
    and "url_Parse R2 (ociURLOf R2 repository2 chartName2) = Inr u2"
    and "Host u2 = H"
    and "username2 \<noteq> ''''"
    and "password2 \<noteq> ''''"
  shows "OCIRegistryLogin R actionConfig d s =
           Some (Inl (CouldNotLogin H err),
                 actionConfig\<lparr>RegistryClient := Some registryClient\<rparr>, s') \<and>
         loggedInOCIRegistries s' = loggedInOCIRegistries s \<and>
         loggedInOCIRegistries s' H = None \<and>
         OCIRegistryLogin R2 actionConfig2 d2 s' =
           Some (case Login R2 registryClient2 H username2 password2 of
                   None \<Rightarrow>
                     (Inr (), actionConfig2\<lparr>RegistryClient := Some registryClient2\<rparr>,
                      s'\<lparr>handshakes := handshakes s' @ [(H, username2, password2, None)],
                         loggedInOCIRegistries := (loggedInOCIRegistries s')(H \<mapsto> '''')\<rparr>)
                 | Some err2 \<Rightarrow>
                     (Inl (CouldNotLogin H err2),
                      actionConfig2\<lparr>RegistryClient := Some registryClient2\<rparr>,
                      s'\<lparr>handshakes := handshakes s' @ [(H, username2, password2, Some err2)]\<rparr>))"
proof -
  have first: "OCIRegistryLogin R actionConfig d s =
           Some (Inl (CouldNotLogin H err),
                 actionConfig\<lparr>RegistryClient := Some registryClient\<rparr>, s')"
    using assms(1-14)
    by (simp add: OCIRegistryLogin_def Let_def loginLocked_def OCILoginMutex_Lock_def
          OCILoginMutex_Unlock_def)
  have free': "\<not> OCILoginMutex s'" and absent': "loggedInOCIRegistries s' H = None"
    and same: "loggedInOCIRegistries s' = loggedInOCIRegistries s"
    using assms(11,12,14) by simp_all
  have second: "OCIRegistryLogin R2 actionConfig2 d2 s' =
           Some (case Login R2 registryClient2 H username2 password2 of
                   None \<Rightarrow>
                     (Inr (), actionConfig2\<lparr>RegistryClient := Some registryClient2\<rparr>,
                      s'\<lparr>handshakes := handshakes s' @ [(H, username2, password2, None)],
                         loggedInOCIRegistries := (loggedInOCIRegistries s')(H \<mapsto> '''')\<rparr>)
                 | Some err2 \<Rightarrow>
                     (Inl (CouldNotLogin H err2),
                      actionConfig2\<lparr>RegistryClient := Some registryClient2\<rparr>,
                      s'\<lparr>handshakes := handshakes s' @ [(H, username2, password2, Some err2)]\<rparr>))"
    using assms(15-24) free' absent'
    by (simp add: OCIRegistryLogin_def Let_def loginLocked_def OCILoginMutex_Lock_def
          OCILoginMutex_Unlock_def split: option.splits)
  from first same absent' second show ?thesis by simp
qed

theorem login_failure_not_recorded_witness:
  "OCIRegistryLogin registryExample (new_Configuration :: (nat, nat) Configuration)
     (releaseData ''oci://registry.example.com/charts/foo'' ''foo'' ''alice'' ''guess'') freshState =
     Some (Inl (CouldNotLogin ''registry.example.com'' ''unauthorized''),
           \<lparr> RESTClientGetter = None, RegistryClient = Some 1 \<rparr>,
           freshState\<lparr>handshakes :=
             [(''registry.example.com'', ''alice'', ''guess'', Some ''unauthorized'')]\<rparr>) \<and>
   OCIRegistryLogin registryExample (new_Configuration :: (nat, nat) Configuration)
     (releaseData ''oci://registry.example.com/charts/foo'' ''foo'' ''alice'' ''s3cret'')
     (freshState\<lparr>handshakes :=
             [(''registry.example.com'', ''alice'', ''guess'', Some ''unauthorized'')]\<rparr>) =
     Some (Inr (), \<lparr> RESTClientGetter = None, RegistryClient = Some 1 \<rparr>,
           \<lparr> loggedInOCIRegistries = [''registry.example.com'' \<mapsto> ''''],
             OCILoginMutex = False,
             handshakes = [(''registry.example.com'', ''alice'', ''guess'', Some ''unauthorized''),
                           (''registry.example.com'', ''alice'', ''s3cret'', None)] \<rparr>)"
  using login_failure_not_recorded [of registryExample 1
      "releaseData ''oci://registry.example.com/charts/foo'' ''foo'' ''alice'' ''guess''"
      "''oci://registry.example.com/charts/foo''" "''foo''" "''alice''" "''guess''"
      "\<lparr> Host = ''registry.example.com'' \<rparr>" "''registry.example.com''"
      freshState "''unauthorized''"
      "freshState\<lparr>handshakes :=
             [(''registry.example.com'', ''alice'', ''guess'', Some ''unauthorized'')]\<rparr>"
      registryExample 1
      "releaseData ''oci://registry.example.com/charts/foo'' ''foo'' ''alice'' ''s3cret''"
      "''oci://registry.example.com/charts/foo''" "''foo''" "''alice''" "''s3cret''"
      "\<lparr> Host = ''registry.example.com'' \<rparr>"
      "new_Configuration :: (nat, nat) Configuration"
      "new_Configuration :: (nat, nat) Configuration"]
  by (simp add: registryExample_def releaseData_def freshState_def
        ociURLOf_def new_Configuration_def)

text \<open>
  C5, as the code has it. When neither the repository nor the chart is an OCI
  reference, the call makes no handshake and leaves the package state unchanged,
  whatever the credentials are. It returns nil after storing the new registry client
  in the configuration, or the wrapped client error when the client is not created.
\<close>

theorem non_registry_bypass:
  assumes "Get d ''repository'' = VString repository"
    and "Get d ''chart'' = VString chartName"
    and "\<not> IsOCI R repository"
    and "\<not> IsOCI R chartName"
  shows "OCIRegistryLogin R actionConfig d s =
           (case NewClient R of
              Inl err \<Rightarrow> Some (Inl (CouldNotCreateClient err), actionConfig, s)
            | Inr registryClient \<Rightarrow>
                Some (Inr (), actionConfig\<lparr>RegistryClient := Some registryClient\<rparr>, s))"
  using assms
  by (simp add: OCIRegistryLogin_def Let_def ociURLOf_def split: sum.splits)

theorem non_registry_bypass_witness:
  "\<not> IsOCI registryExample ''https://charts.example.com'' \<and>
   \<not> IsOCI registryExample ''foo'' \<and>
   OCIRegistryLogin registryExample (new_Configuration :: (nat, nat) Configuration)
     (releaseData ''https://charts.example.com'' ''foo'' ''alice'' ''s3cret'') freshState =
     Some (Inr (), \<lparr> RESTClientGetter = None, RegistryClient = Some 1 \<rparr>, freshState)"
  using non_registry_bypass [of
      "releaseData ''https://charts.example.com'' ''foo'' ''alice'' ''s3cret''"
      "''https://charts.example.com''" "''foo''" registryExample
      "new_Configuration :: (nat, nat) Configuration" freshState]
  by (simp add: registryExample_def releaseData_def new_Configuration_def)

text \<open>
  The bypass can fail and has an effect: without a client the call returns an error,
  and with one the configuration it returns is not the one it was given.
\<close>

theorem non_registry_bypass_counterexample:
  "\<not> IsOCI registryDown ''https://charts.example.com'' \<and>
   \<not> IsOCI registryDown ''foo'' \<and>
   OCIRegistryLogin registryDown (new_Configuration :: (nat, nat) Configuration)
     (releaseData ''https://charts.example.com'' ''foo'' [] []) freshState =
     Some (Inl (CouldNotCreateClient ''credentials store unreadable''), new_Configuration,
           freshState) \<and>
   OCIRegistryLogin registryExample (new_Configuration :: (nat, nat) Configuration)
     (releaseData ''https://charts.example.com'' ''foo'' [] []) freshState \<noteq>
     Some (Inr (), new_Configuration, freshState)"
  by (simp add: OCIRegistryLogin_def Let_def registryDown_def registryExample_def
        releaseData_def ociURLOf_def new_Configuration_def)

text \<open>
  C10, as the code has it. For a release whose four fields are strings and whose
  repository or chart is an OCI reference, when the user name or the password is
  empty the call makes no handshake and leaves the package state unchanged; it
  returns nil when the registry client was created, and the wrapped client error
  otherwise. So a handshake is attempted only with both non-empty.
\<close>

theorem partial_credentials_absent:
  assumes "Get d ''repository'' = VString repository"
    and "Get d ''chart'' = VString chartName"
    and "Get d ''repository_username'' = VString username"
    and "Get d ''repository_password'' = VString password"
    and "ociURLOf R repository chartName \<noteq> ''''"
    and "username = '''' \<or> password = ''''"
  shows "OCIRegistryLogin R actionConfig d s =
           (case NewClient R of
              Inl err \<Rightarrow> Some (Inl (CouldNotCreateClient err), actionConfig, s)
            | Inr registryClient \<Rightarrow>
                Some (Inr (), actionConfig\<lparr>RegistryClient := Some registryClient\<rparr>, s))"
  using assms
  by (auto simp: OCIRegistryLogin_def Let_def split: sum.splits)

theorem partial_credentials_absent_witness:
  "ociURLOf registryExample ''oci://registry.example.com/charts/foo'' ''foo'' \<noteq> '''' \<and>
   OCIRegistryLogin registryExample (new_Configuration :: (nat, nat) Configuration)
     (releaseData ''oci://registry.example.com/charts/foo'' ''foo'' ''alice'' []) freshState =
     Some (Inr (), \<lparr> RESTClientGetter = None, RegistryClient = Some 1 \<rparr>, freshState)"
  using partial_credentials_absent [of
      "releaseData ''oci://registry.example.com/charts/foo'' ''foo'' ''alice'' []"
      "''oci://registry.example.com/charts/foo''" "''foo''" "''alice''" "[]"
      registryExample "new_Configuration :: (nat, nat) Configuration" freshState]
  by (simp add: registryExample_def releaseData_def ociURLOf_def new_Configuration_def)

text \<open>
  Success is not unconditional here either: with a password and no user name, the
  call returns an error when the registry client is not created.
\<close>

theorem partial_credentials_counterexample:
  "ociURLOf registryDown ''oci://registry.example.com/charts/foo'' ''foo'' \<noteq> '''' \<and>
   OCIRegistryLogin registryDown (new_Configuration :: (nat, nat) Configuration)
     (releaseData ''oci://registry.example.com/charts/foo'' ''foo'' [] ''s3cret'') freshState =
     Some (Inl (CouldNotCreateClient ''credentials store unreadable''), new_Configuration,
           freshState)"
  by (simp add: OCIRegistryLogin_def registryDown_def registryExample_def ociURLOf_def)

end
